theory Spec2Isabelle
  imports Main "HOL-Library.Sublist"
begin

section \<open>The Uplay runner (lutris/runners/wineuplay.py)\<close>

text \<open>
  A shallow embedding of the decision logic of the \<^verbatim>\<open>wineuplay\<close> runner: locating the
  Uplay executable, the install pipeline, the shutdown protocol and the command builders.
  The collaborators the module imports (the filesystem helpers of \<^verbatim>\<open>lutris.util.system\<close>,
  the registry parser, the generic Wine runner, the process helpers) are parameters of the
  model: a record of operations over an abstract world \<open>'w\<close>.
\<close>

subsection \<open>Python strings and paths\<close>

text \<open>\<^verbatim>\<open>s.split(c)\<close> for a separator of one character: never empty, one more part than
  there are separators.\<close>

fun py_split :: "char \<Rightarrow> string \<Rightarrow> string list" where
  "py_split c [] = [[]]"
| "py_split c (x # xs) =
     (if x = c then [] # py_split c xs
      else (case py_split c xs of
              [] \<Rightarrow> [[x]]
            | p # ps \<Rightarrow> (x # p) # ps))"

text \<open>\<^verbatim>\<open>s.strip(chars)\<close>: the characters of \<open>cs\<close> removed at both ends.\<close>

definition py_strip :: "char list \<Rightarrow> string \<Rightarrow> string" where
  "py_strip cs s = rev (dropWhile (\<lambda>c. c \<in> set cs) (rev (dropWhile (\<lambda>c. c \<in> set cs) s)))"

text \<open>\<^verbatim>\<open>os.path.join(a, b)\<close> of posixpath, for two components.\<close>

definition os_path_join :: "string \<Rightarrow> string \<Rightarrow> string" where
  "os_path_join a b =
     (if b \<noteq> [] \<and> hd b = CHR ''/'' then b
      else if a = [] \<or> last a = CHR ''/'' then a @ b
      else a @ ''/'' @ b)"

text \<open>\<^verbatim>\<open>os.path.dirname(p)\<close> of posixpath: the head up to the last slash, its trailing
  slashes removed unless it consists of slashes only.\<close>

definition os_path_dirname :: "string \<Rightarrow> string" where
  "os_path_dirname p =
     (let hd_part = rev (dropWhile (\<lambda>c. c \<noteq> CHR ''/'') (rev p))
      in if hd_part \<noteq> [] \<and> \<not> (\<forall>c \<in> set hd_part. c = CHR ''/'')
         then rev (dropWhile (\<lambda>c. c = CHR ''/'') (rev hd_part))
         else hd_part)"

subsection \<open>Errors, events and the state\<close>

text \<open>The exceptions the module raises itself or can run into, and \<open>External\<close> for an
  exception raised inside a collaborator.\<close>

datatype error =
    ValueError string
  | RuntimeError string
  | KeyError string
  | IndexError
  | AttributeError
  | External string

text \<open>What the module does to the outside, in the order it does it.\<close>

datatype event =
    PathExists string
  | RegOpen string
  | RegQuery string string "string option"
  | IsRunning bool
  | Sleep nat
  | Shutdown
  | Kill
  | LogDebug string
  | LogInfo string
  | LogWarning string
  | LogError string
  | MakeDirs string
  | CreatePrefix string string
  | DownloadAndExtract string string
  | Download string string
  | WineExec string string string
  | Winetricks string string
  | Callback
  | Execute "string list"
  | StartCommand "string list"

text \<open>A computation runs on a world and the trace of events so far; it returns a value or
  the exception raised, and the world and trace reached (also when it raised).\<close>

type_synonym ('w, 'a) prog = "'w \<times> event list \<Rightarrow> (error + 'a) \<times> ('w \<times> event list)"

definition ret :: "'a \<Rightarrow> ('w, 'a) prog" where
  "ret x s = (Inr x, s)"

definition raise :: "error \<Rightarrow> ('w, 'a) prog" where
  "raise e s = (Inl e, s)"

definition bnd :: "('w, 'a) prog \<Rightarrow> ('a \<Rightarrow> ('w, 'b) prog) \<Rightarrow> ('w, 'b) prog" where
  "bnd m f s = (case m s of (Inl e, s') \<Rightarrow> (Inl e, s') | (Inr x, s') \<Rightarrow> f x s')"

definition emit :: "event \<Rightarrow> ('w, unit) prog" where
  "emit ev s = (Inr (), (fst s, snd s @ [ev]))"

definition reads :: "('w \<Rightarrow> 'a) \<Rightarrow> ('w, 'a) prog" where
  "reads f s = (Inr (f (fst s)), s)"

definition effect :: "('w \<Rightarrow> error + 'w) \<Rightarrow> ('w, unit) prog" where
  "effect f s = (case f (fst s) of Inl e \<Rightarrow> (Inl e, s) | Inr w' \<Rightarrow> (Inr (), (w', snd s)))"

definition result :: "(error + 'a) \<times> ('w \<times> event list) \<Rightarrow> error + 'a" where
  "result r = fst r"

definition world_of :: "(error + 'a) \<times> ('w \<times> event list) \<Rightarrow> 'w" where
  "world_of r = fst (snd r)"

definition trace_of :: "(error + 'a) \<times> ('w \<times> event list) \<Rightarrow> event list" where
  "trace_of r = snd (snd r)"

subsection \<open>The registry\<close>

text \<open>Modelled from the spec: the registry parser \<^verbatim>\<open>lutris.util.wine.registry.WineRegistry\<close>
  is not part of the module. A parsed hive answers \<^verbatim>\<open>query(path, subkey)\<close> with a value or
  nothing, and \<^verbatim>\<open>query(path)\<close> with the mapping of the key's subkeys or nothing;
  \<open>reg_truthy\<close> is what \<^verbatim>\<open>if registry:\<close> sees.\<close>

record wine_registry =
  reg_filename :: string
  reg_truthy :: bool
  reg_value :: "string \<Rightarrow> string \<Rightarrow> string option"
  reg_subkeys :: "string \<Rightarrow> (string \<times> string) list option"
  reg_unix_path :: "string \<Rightarrow> string"

definition registry_query :: "wine_registry \<Rightarrow> string \<Rightarrow> string \<Rightarrow> ('w, string option) prog" where
  "registry_query registry path subkey =
     bnd (emit (RegQuery (reg_filename registry) path (Some subkey)))
       (\<lambda>_. ret (reg_value registry path subkey))"

definition registry_query_key ::
  "wine_registry \<Rightarrow> string \<Rightarrow> ('w, (string \<times> string) list option) prog" where
  "registry_query_key registry path =
     bnd (emit (RegQuery (reg_filename registry) path None))
       (\<lambda>_. ret (reg_subkeys registry path))"

subsection \<open>get\_open\_command\<close>

definition get_open_command :: "wine_registry \<Rightarrow> ('w, string option) prog" where
  "get_open_command registry =
     bnd (registry_query registry ''Software/Classes/uplay/Shell/Open/Command'' ''default'')
       (\<lambda>value. case value of
           None \<Rightarrow> ret None
         | Some v \<Rightarrow>
             if v = [] then ret None
             else (let parts = py_split (CHR 0x22) v
                   in if length parts < 2 then raise IndexError
                      else ret (Some (py_strip [CHR 0x5C] (parts ! 1)))))"

subsection \<open>Collaborators and configuration\<close>

text \<open>
  The operations the module calls and does not define. \<open>path_exists\<close> is
  \<^verbatim>\<open>system.path_exists\<close>, \<open>fix_path_case\<close> is \<^verbatim>\<open>system.fix_path_case\<close>, \<open>open_registry\<close>
  is the constructor \<^verbatim>\<open>WineRegistry(filename)\<close>, \<open>get_pid\<close> and \<open>kill_pid\<close> are
  \<^verbatim>\<open>system.get_pid\<close> and \<^verbatim>\<open>system.kill_pid\<close>, \<open>sleep\<close> is \<^verbatim>\<open>time.sleep\<close>,
  \<open>wine_shutdown\<close>, \<open>wine_is_installed\<close>, \<open>wine_arch\<close>, \<open>get_executable\<close> and
  \<open>download_and_extract\<close> are methods of the inherited Wine runner, \<open>system_execute\<close> is
  \<^verbatim>\<open>system.execute\<close>, \<open>start_command\<close> builds and starts a \<^verbatim>\<open>MonitoredCommand\<close>,
  \<open>default_arch\<close> is \<^verbatim>\<open>WINE_DEFAULT_ARCH\<close> and \<open>tmp_path\<close> is \<^verbatim>\<open>settings.TMP_PATH\<close>.
  Liveness polls, sleeping and the forced kill cannot raise: the kill is best effort.
\<close>

record 'w ext =
  path_exists :: "string \<Rightarrow> 'w \<Rightarrow> bool"
  expanduser :: "string \<Rightarrow> string"
  abspath :: "string \<Rightarrow> string"
  fix_path_case :: "string \<Rightarrow> 'w \<Rightarrow> string"
  open_registry :: "string \<Rightarrow> 'w \<Rightarrow> wine_registry"
  get_pid :: "string \<Rightarrow> 'w \<Rightarrow> string option"
  kill_pid :: "string option \<Rightarrow> 'w \<Rightarrow> 'w"
  sleep :: "nat \<Rightarrow> 'w \<Rightarrow> 'w"
  wine_shutdown :: "'w \<Rightarrow> error + 'w"
  makedirs :: "string \<Rightarrow> 'w \<Rightarrow> error + 'w"
  create_prefix :: "string \<Rightarrow> string \<Rightarrow> string \<Rightarrow> 'w \<Rightarrow> error + 'w"
  wineexec :: "string \<Rightarrow> string \<Rightarrow> string \<Rightarrow> string \<Rightarrow> 'w \<Rightarrow> error + 'w"
  winetricks :: "string \<Rightarrow> string \<Rightarrow> string \<Rightarrow> 'w \<Rightarrow> error + 'w"
  download_and_extract :: "string \<Rightarrow> string \<Rightarrow> 'w \<Rightarrow> error + 'w"
  system_execute :: "string list \<Rightarrow> 'w \<Rightarrow> error + 'w"
  start_command :: "string list \<Rightarrow> 'w \<Rightarrow> error + 'w"
  get_executable :: string
  wine_is_installed :: "'w \<Rightarrow> bool"
  wine_arch :: "'w \<Rightarrow> string"
  default_arch :: string
  split_arguments :: "string \<Rightarrow> string list"
  tmp_path :: string

text \<open>The game options the module declares (\<^verbatim>\<open>game_id\<close>, \<^verbatim>\<open>prefix\<close>, \<^verbatim>\<open>arch\<close>,
  \<^verbatim>\<open>nolaunch\<close>), each as \<^verbatim>\<open>game_config.get\<close> returns it, and the runner options as a
  dictionary of strings.\<close>

record game_config =
  gc_game_id :: "string option"
  gc_prefix :: "string option"
  gc_arch :: "string option"
  gc_nolaunch :: "bool option"

record runner =
  runner_config :: "string \<rightharpoonup> string"
  game_config :: game_config

text \<open>\<^verbatim>\<open>x or ""\<close> on an optional string.\<close>

definition or_empty :: "string option \<Rightarrow> string" where
  "or_empty x = (case x of None \<Rightarrow> [] | Some v \<Rightarrow> v)"

definition DX2010_INSTALLER_URL :: string where
  "DX2010_INSTALLER_URL = ''https://lutris.net/files/tools/directx-2010.tar.gz''"

text \<open>The continuation line inside the literal keeps the indentation of the source.\<close>

definition UPLAY_INSTALLER_URL :: string where
  "UPLAY_INSTALLER_URL =
     ''https://ubistatic3-a.akamaihd.net/orbit/'' @ replicate 23 (CHR '' '')
       @ ''launcher_installer/UplayInstaller.exe''"

subsection \<open>The collaborators as computations\<close>

definition system_path_exists :: "'w ext \<Rightarrow> string \<Rightarrow> ('w, bool) prog" where
  "system_path_exists X p = bnd (emit (PathExists p)) (\<lambda>_. reads (path_exists X p))"

definition WineRegistry :: "'w ext \<Rightarrow> string \<Rightarrow> ('w, wine_registry) prog" where
  "WineRegistry X reg_file = bnd (emit (RegOpen reg_file)) (\<lambda>_. reads (open_registry X reg_file))"

definition is_running :: "'w ext \<Rightarrow> ('w, bool) prog" where
  "is_running X =
     bnd (reads (get_pid X ''Uplay.exe$''))
       (\<lambda>pid. let r = (case pid of None \<Rightarrow> False | Some p \<Rightarrow> p \<noteq> [])
               in bnd (emit (IsRunning r)) (\<lambda>_. ret r))"

definition kill :: "'w ext \<Rightarrow> ('w, unit) prog" where
  "kill X =
     bnd (reads (get_pid X ''Uplay.exe$''))
       (\<lambda>pid. bnd (emit Kill) (\<lambda>_. effect (\<lambda>w. Inr (kill_pid X pid w))))"

definition time_sleep :: "'w ext \<Rightarrow> nat \<Rightarrow> ('w, unit) prog" where
  "time_sleep X n = bnd (emit (Sleep n)) (\<lambda>_. effect (\<lambda>w. Inr (sleep X n w)))"

definition shutdown :: "'w ext \<Rightarrow> ('w, unit) prog" where
  "shutdown X = bnd (emit Shutdown) (\<lambda>_. effect (wine_shutdown X))"

definition os_makedirs :: "'w ext \<Rightarrow> string \<Rightarrow> ('w, unit) prog" where
  "os_makedirs X d = bnd (emit (MakeDirs d)) (\<lambda>_. effect (makedirs X d))"

definition run_create_prefix :: "'w ext \<Rightarrow> string \<Rightarrow> string \<Rightarrow> string \<Rightarrow> ('w, unit) prog" where
  "run_create_prefix X prefix_dir arch wine_path =
     bnd (emit (CreatePrefix prefix_dir arch)) (\<lambda>_. effect (create_prefix X prefix_dir arch wine_path))"

definition run_wineexec ::
  "'w ext \<Rightarrow> string \<Rightarrow> string \<Rightarrow> string \<Rightarrow> string \<Rightarrow> ('w, unit) prog" where
  "run_wineexec X exe args pfx wine_path =
     bnd (emit (WineExec exe args pfx)) (\<lambda>_. effect (wineexec X exe args pfx wine_path))"

definition run_winetricks :: "'w ext \<Rightarrow> string \<Rightarrow> string \<Rightarrow> string \<Rightarrow> ('w, unit) prog" where
  "run_winetricks X app pfx wine_path =
     bnd (emit (Winetricks app pfx)) (\<lambda>_. effect (winetricks X app pfx wine_path))"

definition run_download_and_extract :: "'w ext \<Rightarrow> string \<Rightarrow> string \<Rightarrow> ('w, unit) prog" where
  "run_download_and_extract X url dest =
     bnd (emit (DownloadAndExtract url dest)) (\<lambda>_. effect (download_and_extract X url dest))"

definition run_system_execute :: "'w ext \<Rightarrow> string list \<Rightarrow> ('w, unit) prog" where
  "run_system_execute X argv = bnd (emit (Execute argv)) (\<lambda>_. effect (system_execute X argv))"

definition run_start_command :: "'w ext \<Rightarrow> string list \<Rightarrow> ('w, unit) prog" where
  "run_start_command X argv = bnd (emit (StartCommand argv)) (\<lambda>_. effect (start_command X argv))"

subsection \<open>Prefixes\<close>

definition game_id :: "runner \<Rightarrow> string" where
  "game_id self = or_empty (gc_game_id (game_config self))"

text \<open>\<^verbatim>\<open>self.runner_config["default_%s_prefix" % arch]\<close>: a missing key raises KeyError.\<close>

definition get_default_prefix :: "runner \<Rightarrow> string \<Rightarrow> ('w, string) prog" where
  "get_default_prefix self arch =
     (case runner_config self (''default_'' @ arch @ ''_prefix'') of
        None \<Rightarrow> raise (KeyError (''default_'' @ arch @ ''_prefix''))
      | Some p \<Rightarrow> ret p)"

definition create_default_prefix :: "'w ext \<Rightarrow> string \<Rightarrow> string option \<Rightarrow> ('w, unit) prog" where
  "create_default_prefix X prefix_dir arch =
     bnd (emit (LogDebug ''Creating default wineuplay prefix''))
       (\<lambda>_. let arch' = (if or_empty arch = [] then default_arch X else or_empty arch)
             in bnd (system_path_exists X (os_path_dirname prefix_dir))
                  (\<lambda>parent_exists.
                     bnd (if \<not> parent_exists then os_makedirs X (os_path_dirname prefix_dir)
                          else ret ())
                       (\<lambda>_. run_create_prefix X prefix_dir arch' (get_executable X))))"

definition get_or_create_default_prefix ::
  "'w ext \<Rightarrow> runner \<Rightarrow> string option \<Rightarrow> ('w, string) prog" where
  "get_or_create_default_prefix X self arch =
     (let arch' = (if or_empty arch = [] \<or> arch = Some ''auto'' then default_arch X
                   else or_empty arch)
      in bnd (get_default_prefix self arch')
           (\<lambda>pfx. bnd (system_path_exists X pfx)
              (\<lambda>found. if \<not> found
                        then bnd (create_default_prefix X pfx (Some arch')) (\<lambda>_. ret pfx)
                        else ret pfx)))"

text \<open>\<^verbatim>\<open>self.game_config.get("prefix") or self.get_or_create_default_prefix(arch=...)\<close>,
  as \<^verbatim>\<open>get_game_id_list\<close> and \<^verbatim>\<open>get_game_path_from_game_id\<close> write it.\<close>

definition config_prefix :: "'w ext \<Rightarrow> runner \<Rightarrow> ('w, string) prog" where
  "config_prefix X self =
     (if or_empty (gc_prefix (game_config self)) \<noteq> []
      then ret (or_empty (gc_prefix (game_config self)))
      else get_or_create_default_prefix X self (gc_arch (game_config self)))"

subsection \<open>get\_uplay\_path and launch\_args\<close>

definition default_paths :: "string list" where
  "default_paths =
     [''drive_c/Program Files (x86)/Ubisoft/Ubisoft Game Launcher/'' @ replicate 16 (CHR '' '')
        @ ''upc.exe'',
      ''drive_c/Program Files/Ubisoft/Ubisoft Game Launcher/upc.exe'']"

text \<open>The inner loop over the default install paths of one prefix.\<close>

fun try_default_paths :: "'w ext \<Rightarrow> string \<Rightarrow> string list \<Rightarrow> ('w, string option) prog" where
  "try_default_paths X pfx [] = ret None"
| "try_default_paths X pfx (default_path # rest) =
     bnd (system_path_exists X (os_path_join pfx default_path))
       (\<lambda>found. if found then ret (Some (os_path_join pfx default_path))
                 else try_default_paths X pfx rest)"

text \<open>The outer loop over the candidate prefixes.\<close>

fun get_uplay_path_candidates :: "'w ext \<Rightarrow> string list \<Rightarrow> ('w, string) prog" where
  "get_uplay_path_candidates X [] = ret []"
| "get_uplay_path_candidates X (pfx # rest) =
     bnd (try_default_paths X pfx default_paths)
       (\<lambda>hit. case hit of
           Some uplay_path \<Rightarrow> ret uplay_path
         | None \<Rightarrow>
             bnd (system_path_exists X (os_path_join pfx ''user.reg''))
               (\<lambda>reg_exists.
                  if \<not> reg_exists then get_uplay_path_candidates X rest
                  else bnd (WineRegistry X (os_path_join pfx ''user.reg''))
                         (\<lambda>registry. bnd (get_open_command registry)
                            (\<lambda>uplay_path.
                               if or_empty uplay_path = []
                               then get_uplay_path_candidates X rest
                               else bnd (reads (fix_path_case X
                                           (reg_unix_path registry (or_empty uplay_path))))
                                      ret))))"

definition get_uplay_path :: "'w ext \<Rightarrow> runner \<Rightarrow> ('w, string) prog" where
  "get_uplay_path X self =
     (let custom_path = or_empty (runner_config self ''uplay_path'');
          custom_exe = abspath X (expanduser X (os_path_join custom_path ''Uplay.exe''))
      in bnd (if custom_path \<noteq> []
              then bnd (system_path_exists X custom_exe)
                     (\<lambda>found. ret (if found then Some custom_exe else None))
              else ret None)
           (\<lambda>hit. case hit of
               Some p \<Rightarrow> ret p
             | None \<Rightarrow>
                 bnd (get_default_prefix self ''win64'')
                   (\<lambda>p64. bnd (get_default_prefix self ''win32'')
                      (\<lambda>p32. get_uplay_path_candidates X
                                [p64, p32, expanduser X ''~/.wine'']))))"

definition launch_args :: "'w ext \<Rightarrow> runner \<Rightarrow> ('w, string list) prog" where
  "launch_args X self =
     bnd (get_uplay_path X self)
       (\<lambda>uplay_path.
          if uplay_path = []
          then raise (RuntimeError (''Can'' @ [CHR 0x27] @ ''t find a Uplay executable''))
          else ret ([get_executable X, uplay_path]
                    @ split_arguments X (or_empty (runner_config self ''args''))))"

subsection \<open>install\<close>

text \<open>The continuation \<^verbatim>\<open>on_uplay_downloaded\<close> that \<^verbatim>\<open>install\<close> hands to the downloader.
  The completion callback is an operation on the world that may raise.\<close>

definition on_uplay_downloaded ::
  "'w ext \<Rightarrow> runner \<Rightarrow> string \<Rightarrow> string \<Rightarrow> ('w \<Rightarrow> error + 'w) option \<Rightarrow> ('w, unit) prog" where
  "on_uplay_downloaded X self dx2010_path installer_path callback =
     bnd (get_or_create_default_prefix X self None)
       (\<lambda>pfx. bnd (run_wineexec X dx2010_path ''/silent'' pfx (get_executable X))
          (\<lambda>_. bnd (run_winetricks X ''corefonts d3dcompiler_43 gdiplus'' pfx (get_executable X))
             (\<lambda>_. bnd (run_wineexec X installer_path ''/S'' pfx (get_executable X))
                (\<lambda>_. case callback of
                        None \<Rightarrow> ret ()
                      | Some cb \<Rightarrow> bnd (emit Callback) (\<lambda>_. effect cb)))))"

text \<open>The downloader is the caller's: it gets the URL, the destination and the
  continuation, and decides whether and when the continuation runs.\<close>

definition install ::
  "'w ext \<Rightarrow> runner \<Rightarrow> (string \<Rightarrow> string \<Rightarrow> ('w, unit) prog \<Rightarrow> ('w, unit) prog)
     \<Rightarrow> ('w \<Rightarrow> error + 'w) option \<Rightarrow> ('w, unit) prog" where
  "install X self downloader callback =
     (let dx2010_path = os_path_join (tmp_path X) ''dxsetup.zip'';
          installer_path = os_path_join (tmp_path X) ''UplayInstaller.exe''
      in bnd (run_download_and_extract X DX2010_INSTALLER_URL dx2010_path)
           (\<lambda>_. downloader UPLAY_INSTALLER_URL installer_path
                   (on_uplay_downloaded X self dx2010_path installer_path callback)))"

text \<open>A downloader that fetches the file and then runs the continuation.\<close>

definition sync_downloader :: "string \<Rightarrow> string \<Rightarrow> ('w, unit) prog \<Rightarrow> ('w, unit) prog" where
  "sync_downloader url dest k = bnd (emit (Download url dest)) (\<lambda>_. k)"

subsection \<open>is\_installed\<close>

definition is_installed :: "'w ext \<Rightarrow> runner \<Rightarrow> ('w, bool) prog" where
  "is_installed X self =
     bnd (reads (wine_is_installed X))
       (\<lambda>wine_ok.
          if \<not> wine_ok then ret False
          else bnd (get_default_prefix self (default_arch X))
                 (\<lambda>pfx. bnd (system_path_exists X pfx)
                    (\<lambda>found. if \<not> found then ret False
                              else bnd (get_uplay_path X self) (system_path_exists X))))"

subsection \<open>Registry lookups of games\<close>

text \<open>\<^verbatim>\<open>apps.keys()\<close> on the absent result of the query is an AttributeError; a function
  that falls off its end returns None.\<close>

definition get_game_id_list :: "'w ext \<Rightarrow> runner \<Rightarrow> ('w, string list option) prog" where
  "get_game_id_list X self =
     bnd (config_prefix X self)
       (\<lambda>pfx. let user_reg = os_path_join pfx ''user.reg''
               in bnd (system_path_exists X user_reg)
                    (\<lambda>found.
                       if found
                       then bnd (WineRegistry X user_reg)
                              (\<lambda>registry.
                                 if reg_truthy registry
                                 then bnd (registry_query_key registry
                                             ''Software/Ubisoft/Uplay/GameStarter'')
                                        (\<lambda>apps. case apps of
                                            None \<Rightarrow> raise AttributeError
                                          | Some kv \<Rightarrow> ret (Some (map fst kv)))
                                 else ret None)
                       else ret None))"

definition get_game_path_from_game_id ::
  "'w ext \<Rightarrow> runner \<Rightarrow> string \<Rightarrow> ('w, string option) prog" where
  "get_game_path_from_game_id X self gid =
     bnd (config_prefix X self)
       (\<lambda>pfx. let system_reg = os_path_join pfx ''system.reg''
               in bnd (WineRegistry X system_reg)
                    (\<lambda>registry.
                       bnd (if reg_truthy registry
                            then bnd (emit (LogDebug (''Checking for game '' @ gid
                                                      @ '' in the Wine registry'')))
                                   (\<lambda>_. bnd (reads (wine_arch X))
                                      (\<lambda>arch.
                                         bnd (if arch = ''win64''
                                              then registry_query registry
                                                     (''Software/Wow6432/Ubisoft/Launcher/Installs/''
                                                      @ gid) ''InstallDir''
                                              else registry_query registry
                                                     (''Software/Ubisoft/Launcher/Installs/''
                                                      @ gid) ''InstallDir'')
                                           (\<lambda>game_path.
                                              if or_empty game_path \<noteq> []
                                              then bnd (emit (LogDebug (''Game found in ''
                                                                        @ or_empty game_path)))
                                                     (\<lambda>_. ret (Some (or_empty game_path)))
                                              else ret None)))
                            else ret None)
                         (\<lambda>found. case found of
                             Some game_path \<Rightarrow> ret (Some game_path)
                           | None \<Rightarrow>
                               bnd (emit (LogWarning (''Data path for game '' @ gid
                                                      @ '' not found.'')))
                                 (\<lambda>_. ret None))))"

subsection \<open>install\_game\<close>

definition install_game :: "'w ext \<Rightarrow> runner \<Rightarrow> string \<Rightarrow> ('w, unit) prog" where
  "install_game X self gid =
     (if gid = [] then raise (ValueError ''Missing game ID in wineuplay.install_game'')
      else bnd (launch_args X self)
             (\<lambda>args. run_system_execute X (args @ [''uplay://install/'' @ gid])))"

subsection \<open>force\_shutdown\<close>

text \<open>The inner function \<^verbatim>\<open>has_uplay_shutdown(times)\<close>: True at the first poll that finds
  the process gone, None when the loop runs out.\<close>

fun has_uplay_shutdown :: "'w ext \<Rightarrow> nat \<Rightarrow> ('w, bool option) prog" where
  "has_uplay_shutdown X 0 = ret None"
| "has_uplay_shutdown X (Suc n) =
     bnd (time_sleep X 1)
       (\<lambda>_. bnd (is_running X)
          (\<lambda>running. if \<not> running then ret (Some True) else has_uplay_shutdown X n))"

definition force_shutdown :: "'w ext \<Rightarrow> ('w, unit) prog" where
  "force_shutdown X =
     bnd (is_running X)
       (\<lambda>running.
          if running
          then bnd (emit (LogInfo ''Waiting for Uplay to shutdown...''))
                 (\<lambda>_. bnd (shutdown X)
                    (\<lambda>_. bnd (has_uplay_shutdown X 10)
                       (\<lambda>gone.
                          if gone \<noteq> Some True
                          then bnd (emit (LogInfo ''Forcing Uplay shutdown''))
                                 (\<lambda>_. bnd (kill X)
                                    (\<lambda>_. bnd (has_uplay_shutdown X 5)
                                       (\<lambda>gone'. if gone' \<noteq> Some True
                                                 then emit (LogError
                                                        ''Failed to shut down wineuplay :('')
                                                 else ret ())))
                          else ret ())))
          else ret ())"

subsection \<open>get\_command and remove\_game\_data\<close>

definition get_command :: "'w ext \<Rightarrow> runner \<Rightarrow> ('w, string list) prog" where
  "get_command X self =
     bnd (launch_args X self)
       (\<lambda>command. if gc_nolaunch (game_config self) \<noteq> Some True
                   then ret (command @ [''uplay://launch/'' @ game_id self])
                   else ret command)"

text \<open>\<^verbatim>\<open>remove_game_data\<close> returns False when Uplay is not installed and None after it
  started the uninstall command.\<close>

definition remove_game_data :: "'w ext \<Rightarrow> runner \<Rightarrow> string option \<Rightarrow> ('w, bool option) prog" where
  "remove_game_data X self gid =
     bnd (is_installed X self)
       (\<lambda>installed.
          if \<not> installed
          then bnd (emit (LogWarning
                      (''Trying to remove a wineuplay game but it'' @ [CHR 0x27]
                       @ ''s not installed.'')))
                 (\<lambda>_. ret (Some False))
          else bnd (force_shutdown X)
                 (\<lambda>_. bnd (launch_args X self)
                    (\<lambda>args. bnd (run_start_command X
                                   (args @ [''uplay://uninstall/''
                                            @ (if or_empty gid \<noteq> [] then or_empty gid
                                               else game_id self)]))
                       (\<lambda>_. ret None))))"

subsection \<open>Traces of the shutdown protocol\<close>

text \<open>What \<^verbatim>\<open>is_running()\<close> answers in a world, the events of \<open>k\<close> polls that found the
  process alive, the events before the first wait and those of the escalation; the polls
  and sleeps of a trace, and its two polling phases: after the stop request up to the
  forced kill, and after the forced kill.\<close>

definition polling :: "nat \<Rightarrow> event list" where
  "polling k = concat (replicate k [Sleep 1, IsRunning True])"

definition running_in :: "'w ext \<Rightarrow> 'w \<Rightarrow> bool" where
  "running_in X w = (case get_pid X ''Uplay.exe$'' w of None \<Rightarrow> False | Some p \<Rightarrow> p \<noteq> [])"

definition shutdown_pre :: "event list" where
  "shutdown_pre = [IsRunning True, LogInfo ''Waiting for Uplay to shutdown...'', Shutdown]"

definition forcing :: "event list" where
  "forcing = [LogInfo ''Forcing Uplay shutdown'', Kill]"

fun is_poll :: "event \<Rightarrow> bool" where
  "is_poll (IsRunning b) = True"
| "is_poll _ = False"

definition polls :: "event list \<Rightarrow> nat" where
  "polls tr = length (filter is_poll tr)"

definition sleeps :: "event list \<Rightarrow> nat" where
  "sleeps tr = length (filter (\<lambda>e. e = Sleep 1) tr)"

definition graceful_phase :: "event list \<Rightarrow> event list" where
  "graceful_phase tr = takeWhile (\<lambda>e. e \<noteq> Kill) (drop 1 (dropWhile (\<lambda>e. e \<noteq> Shutdown) tr))"

definition forced_phase :: "event list \<Rightarrow> event list" where
  "forced_phase tr = drop 1 (dropWhile (\<lambda>e. e \<noteq> Kill) tr)"

definition shutdown_trace :: "'w ext \<Rightarrow> 'w \<Rightarrow> event list" where
  "shutdown_trace X w = trace_of (force_shutdown X (w, []))"

definition poll_protocol :: "event list \<Rightarrow> bool" where
  "poll_protocol tr \<longleftrightarrow>
     polls (graceful_phase tr) \<le> 10
     \<and> polls (forced_phase tr) \<le> 5
     \<and> sleeps (graceful_phase tr) = polls (graceful_phase tr)
     \<and> sleeps (forced_phase tr) = polls (forced_phase tr)
     \<and> (\<forall>i. i < length tr \<longrightarrow> tr ! i = IsRunning False \<longrightarrow> Suc i = length tr)
     \<and> (IsRunning False \<in> set (graceful_phase tr) \<longrightarrow> Kill \<notin> set tr)
     \<and> (Kill \<in> set tr \<longrightarrow> polls (graceful_phase tr) = 10)"

subsection \<open>Simulated worlds\<close>

text \<open>A world to run the model on: the paths that exist and the number of seconds the
  Uplay process stays alive. The hives are a parameter; every collaborator succeeds.\<close>

record sim =
  sim_files :: "string list"
  sim_alive :: nat

definition no_registry :: "string \<Rightarrow> wine_registry" where
  "no_registry f =
     \<lparr>reg_filename = f, reg_truthy = True, reg_value = (\<lambda>path subkey. None),
      reg_subkeys = (\<lambda>path. None), reg_unix_path = (\<lambda>p. p)\<rparr>"

definition sim_ext :: "(string \<Rightarrow> wine_registry) \<Rightarrow> sim ext" where
  "sim_ext hives =
     \<lparr>path_exists = (\<lambda>p w. p \<in> set (sim_files w)),
      expanduser = (\<lambda>p. if take 2 p = ''~/'' then ''/home/user/'' @ drop 2 p else p),
      abspath = (\<lambda>p. p),
      fix_path_case = (\<lambda>p w. p),
      open_registry = (\<lambda>f w. hives f),
      get_pid = (\<lambda>name w. if 0 < sim_alive w then Some ''4242'' else None),
      kill_pid = (\<lambda>pid w. w\<lparr>sim_alive := 0\<rparr>),
      sleep = (\<lambda>n w. w\<lparr>sim_alive := sim_alive w - n\<rparr>),
      wine_shutdown = Inr,
      makedirs = (\<lambda>d w. Inr (w\<lparr>sim_files := d # sim_files w\<rparr>)),
      create_prefix = (\<lambda>p arch wine_path w. Inr (w\<lparr>sim_files := p # sim_files w\<rparr>)),
      wineexec = (\<lambda>exe args pfx wine_path. Inr),
      winetricks = (\<lambda>app pfx wine_path. Inr),
      download_and_extract = (\<lambda>url dest. Inr),
      system_execute = (\<lambda>argv. Inr),
      start_command = (\<lambda>argv. Inr),
      get_executable = ''/usr/bin/wine'',
      wine_is_installed = (\<lambda>w. True),
      wine_arch = (\<lambda>w. ''win64''),
      default_arch = ''win64'',
      split_arguments = (\<lambda>s. if s = [] then [] else [s]),
      tmp_path = ''/tmp''\<rparr>"

text \<open>A process that survives the forced kill, a stop request that raises, and a hive
  whose open command has no quotes.\<close>

definition unkillable_ext :: "sim ext" where
  "unkillable_ext = (sim_ext no_registry)\<lparr>kill_pid := (\<lambda>pid w. w)\<rparr>"

definition failing_shutdown_ext :: "sim ext" where
  "failing_shutdown_ext =
     (sim_ext no_registry)\<lparr>wine_shutdown := (\<lambda>w. Inl (External ''shutdown failed''))\<rparr>"

definition reg_open_command_unquoted :: wine_registry where
  "reg_open_command_unquoted =
     \<lparr>reg_filename = ''/p/user.reg'', reg_truthy = True,
      reg_value = (\<lambda>path subkey.
        if path = ''Software/Classes/uplay/Shell/Open/Command'' \<and> subkey = ''default''
        then Some ''C:/Uplay/Uplay.exe %1'' else None),
      reg_subkeys = (\<lambda>path. None),
      reg_unix_path = (\<lambda>p. p)\<rparr>"

definition custom_runner :: runner where
  "custom_runner =
     \<lparr>runner_config = [''uplay_path'' \<mapsto> ''/opt/uplay'', ''default_win64_prefix'' \<mapsto> ''/p64'',
                        ''default_win32_prefix'' \<mapsto> ''/p32''],
      game_config = \<lparr>gc_game_id = None, gc_prefix = None, gc_arch = None, gc_nolaunch = None\<rparr>\<rparr>"

definition custom_world :: sim where
  "custom_world = \<lparr>sim_files = [''/opt/uplay/Uplay.exe'', ''/p64''], sim_alive = 0\<rparr>"

fun probed_paths :: "event list \<Rightarrow> string list" where
  "probed_paths [] = []"
| "probed_paths (PathExists p # es) = p # probed_paths es"
| "probed_paths (e # es) = probed_paths es"

definition candidate_probes :: "string \<Rightarrow> string list" where
  "candidate_probes pfx = map (os_path_join pfx) default_paths @ [os_path_join pfx ''user.reg'']"

definition custom_exe :: "'w ext \<Rightarrow> runner \<Rightarrow> string" where
  "custom_exe X self =
     abspath X (expanduser X (os_path_join (or_empty (runner_config self ''uplay_path'')) ''Uplay.exe''))"

section \<open>Properties\<close>

subsection \<open>Helpers on strings\<close>

lemma py_split_length: "length (py_split c s) = Suc (length (filter (\<lambda>x. x = c) s))"
  by (induction s) (auto split: list.splits)

lemma py_split_no_sep: "c \<notin> set s \<Longrightarrow> py_split c s = [s]"
  by (induction s) auto

lemma py_split_two_parts: "c \<in> set s \<Longrightarrow> 2 \<le> length (py_split c s)"
proof -
  assume "c \<in> set s"
  then have "filter (\<lambda>x. x = c) s \<noteq> []"
    by (auto simp: filter_empty_conv)
  then show ?thesis
    by (cases "filter (\<lambda>x. x = c) s") (simp_all add: py_split_length)
qed

subsection \<open>The open-command parse is partial\<close>

text \<open>
  C9. \<^verbatim>\<open>get_open_command\<close> is not total: whenever the value stored for the key of the
  uplay URI handler is a non-empty string without a double quote, the split has one part
  and \<^verbatim>\<open>parts[1]\<close> raises IndexError. It returns None exactly when the value is absent or
  the empty string.
\<close>

theorem get_open_command_partial:
  "(\<forall>v. reg_value registry ''Software/Classes/uplay/Shell/Open/Command'' ''default'' = Some v
        \<longrightarrow> v \<noteq> [] \<longrightarrow> CHR 0x22 \<notin> set v
        \<longrightarrow> result (get_open_command registry s) = Inl IndexError)
   \<and> (result (get_open_command registry s) = Inr None
        \<longleftrightarrow> reg_value registry ''Software/Classes/uplay/Shell/Open/Command'' ''default''
              \<in> {None, Some []})"
proof (intro conjI allI impI)
  fix v
  assume "reg_value registry ''Software/Classes/uplay/Shell/Open/Command'' ''default'' = Some v"
    and "v \<noteq> []" and "CHR 0x22 \<notin> set v"
  then show "result (get_open_command registry s) = Inl IndexError"
    by (simp add: get_open_command_def registry_query_def bnd_def emit_def ret_def raise_def
        result_def py_split_no_sep)
next
  show "result (get_open_command registry s) = Inr None
        \<longleftrightarrow> reg_value registry ''Software/Classes/uplay/Shell/Open/Command'' ''default''
              \<in> {None, Some []}"
    by (cases "reg_value registry ''Software/Classes/uplay/Shell/Open/Command'' ''default''")
      (simp_all add: get_open_command_def registry_query_def bnd_def emit_def ret_def raise_def
        result_def Let_def)
qed

theorem get_open_command_partial_witness:
  "result (get_open_command reg_open_command_unquoted ((), [])) = Inl IndexError
   \<and> result (get_open_command reg_open_command_unquoted ((), [])) \<noteq> Inr None"
proof -
  have v: "reg_value reg_open_command_unquoted ''Software/Classes/uplay/Shell/Open/Command''
             ''default'' = Some ''C:/Uplay/Uplay.exe %1''"
    by (simp add: reg_open_command_unquoted_def)
  have q: "CHR 0x22 \<notin> set ''C:/Uplay/Uplay.exe %1''"
    by simp
  from get_open_command_partial [of reg_open_command_unquoted "((), [])"] v q
  show ?thesis
    by simp
qed

subsection \<open>The shutdown protocol\<close>

lemmas prog_defs = bnd_def ret_def raise_def emit_def reads_def effect_def

lemma polling_Suc: "polling (Suc k) = Sleep 1 # IsRunning True # polling k"
  by (simp add: polling_def)

lemma is_running_run: "is_running X (w, tr) = (Inr (running_in X w), (w, tr @ [IsRunning (running_in X w)]))"
  by (simp add: prog_defs is_running_def running_in_def Let_def)

lemma has_uplay_shutdown_Zero: "has_uplay_shutdown X 0 s = (Inr None, s)"
  by (simp add: ret_def)

lemma has_uplay_shutdown_Suc:
  "has_uplay_shutdown X (Suc n) (w, tr) =
     (if running_in X (sleep X 1 w)
      then has_uplay_shutdown X n (sleep X 1 w, tr @ [Sleep 1, IsRunning True])
      else (Inr (Some True), (sleep X 1 w, tr @ [Sleep 1, IsRunning False])))"
  by (simp add: bnd_def time_sleep_def emit_def effect_def is_running_run ret_def)

lemma has_uplay_shutdown_run:
  "(\<exists>w'. has_uplay_shutdown X n (w, tr) = (Inr None, (w', tr @ polling n)))
   \<or> (\<exists>w' k. k < n \<and> has_uplay_shutdown X n (w, tr)
          = (Inr (Some True), (w', tr @ polling k @ [Sleep 1, IsRunning False])))"
proof (induction n arbitrary: w tr)
  case 0
  show ?case by (simp add: ret_def polling_def)
next
  case (Suc n)
  let ?w1 = "sleep X 1 w"
  show ?case
  proof (cases "running_in X ?w1")
    case False
    then have "has_uplay_shutdown X (Suc n) (w, tr)
        = (Inr (Some True), (?w1, tr @ polling 0 @ [Sleep 1, IsRunning False]))"
      by (simp only: has_uplay_shutdown_Suc polling_def) simp
    then show ?thesis by blast
  next
    case True
    then have step: "has_uplay_shutdown X (Suc n) (w, tr)
        = has_uplay_shutdown X n (?w1, tr @ [Sleep 1, IsRunning True])"
      by (simp only: has_uplay_shutdown_Suc if_True)
    from Suc.IH [of ?w1 "tr @ [Sleep 1, IsRunning True]"]
    show ?thesis
    proof
      assume "\<exists>w'. has_uplay_shutdown X n (?w1, tr @ [Sleep 1, IsRunning True])
                = (Inr None, (w', (tr @ [Sleep 1, IsRunning True]) @ polling n))"
      then obtain w' where "has_uplay_shutdown X (Suc n) (w, tr)
                = (Inr None, (w', (tr @ [Sleep 1, IsRunning True]) @ polling n))"
        unfolding step by blast
      then have "has_uplay_shutdown X (Suc n) (w, tr) = (Inr None, (w', tr @ polling (Suc n)))"
        by (simp only: polling_Suc append_assoc append_Cons append_Nil)
      then show ?thesis by blast
    next
      assume "\<exists>w' k. k < n \<and> has_uplay_shutdown X n (?w1, tr @ [Sleep 1, IsRunning True])
                = (Inr (Some True), (w', (tr @ [Sleep 1, IsRunning True]) @ polling k @ [Sleep 1, IsRunning False]))"
      then obtain w' k where k: "k < n"
        and r: "has_uplay_shutdown X (Suc n) (w, tr)
                = (Inr (Some True), (w', (tr @ [Sleep 1, IsRunning True]) @ polling k @ [Sleep 1, IsRunning False]))"
        unfolding step by blast
      have "Suc k < Suc n" using k by simp
      moreover have "has_uplay_shutdown X (Suc n) (w, tr)
         = (Inr (Some True), (w', tr @ polling (Suc k) @ [Sleep 1, IsRunning False]))"
        using r by (simp only: polling_Suc append_assoc append_Cons append_Nil)
      ultimately show ?thesis by blast
    qed
  qed
qed

lemma force_shutdown_unfold:
  "force_shutdown X (w, []) =
     (if \<not> running_in X w then (Inr (), (w, [IsRunning False]))
      else case wine_shutdown X w of
             Inl e \<Rightarrow> (Inl e, (w, shutdown_pre))
           | Inr w1 \<Rightarrow>
               (case has_uplay_shutdown X 10 (w1, shutdown_pre) of
                  (Inl e, s) \<Rightarrow> (Inl e, s)
                | (Inr gone, (w2, tr2)) \<Rightarrow>
                    if gone \<noteq> Some True
                    then (case has_uplay_shutdown X 5
                                 (kill_pid X (get_pid X ''Uplay.exe$'' w2) w2, tr2 @ forcing) of
                            (Inl e, s) \<Rightarrow> (Inl e, s)
                          | (Inr gone', (w3, tr3)) \<Rightarrow>
                              if gone' \<noteq> Some True
                              then (Inr (), (w3, tr3 @ [LogError ''Failed to shut down wineuplay :('']))
                              else (Inr (), (w3, tr3)))
                    else (Inr (), (w2, tr2))))"
  by (simp add: force_shutdown_def bnd_def is_running_run emit_def shutdown_def effect_def
      ret_def kill_def reads_def shutdown_pre_def forcing_def
      split: sum.splits prod.splits)

lemma force_shutdown_cases:
  "force_shutdown X (w, []) = (Inr (), (w, [IsRunning False]))
   \<or> (\<exists>e. force_shutdown X (w, []) = (Inl e, (w, shutdown_pre)) \<and> wine_shutdown X w = Inl e)
   \<or> (\<exists>w' k. k < 10 \<and> force_shutdown X (w, [])
         = (Inr (), (w', shutdown_pre @ polling k @ [Sleep 1, IsRunning False])))
   \<or> (\<exists>w' k. k < 5 \<and> force_shutdown X (w, [])
         = (Inr (), (w', shutdown_pre @ polling 10 @ forcing @ polling k
                          @ [Sleep 1, IsRunning False])))
   \<or> (\<exists>w'. force_shutdown X (w, [])
         = (Inr (), (w', shutdown_pre @ polling 10 @ forcing @ polling 5
                          @ [LogError ''Failed to shut down wineuplay :(''])))"
proof (cases "running_in X w")
  case False
  then show ?thesis by (simp add: force_shutdown_unfold)
next
  case True
  show ?thesis
  proof (cases "wine_shutdown X w")
    case (Inl e)
    with True show ?thesis by (simp add: force_shutdown_unfold)
  next
    case (Inr w1)
    from has_uplay_shutdown_run [of X 10 w1 shutdown_pre]
    show ?thesis
    proof (elim disjE exE conjE)
      fix w' k
      assume "k < 10" and "has_uplay_shutdown X 10 (w1, shutdown_pre)
          = (Inr (Some True), (w', shutdown_pre @ polling k @ [Sleep 1, IsRunning False]))"
      with True Inr
      have "k < 10 \<and> force_shutdown X (w, [])
         = (Inr (), (w', shutdown_pre @ polling k @ [Sleep 1, IsRunning False]))"
        by (simp add: force_shutdown_unfold)
      then show ?thesis by blast
    next
      fix w2
      assume g: "has_uplay_shutdown X 10 (w1, shutdown_pre)
          = (Inr None, (w2, shutdown_pre @ polling 10))"
      let ?w2' = "kill_pid X (get_pid X ''Uplay.exe$'' w2) w2"
      from has_uplay_shutdown_run [of X 5 ?w2' "(shutdown_pre @ polling 10) @ forcing"]
      show ?thesis
      proof (elim disjE exE conjE)
        fix w3
        assume "has_uplay_shutdown X 5 (?w2', (shutdown_pre @ polling 10) @ forcing)
           = (Inr None, (w3, ((shutdown_pre @ polling 10) @ forcing) @ polling 5))"
        with True Inr g
        have "force_shutdown X (w, [])
         = (Inr (), (w3, shutdown_pre @ polling 10 @ forcing @ polling 5
                          @ [LogError ''Failed to shut down wineuplay :('']))"
          by (simp add: force_shutdown_unfold)
        then show ?thesis by blast
      next
        fix w3 k
        assume "k < 5" and "has_uplay_shutdown X 5 (?w2', (shutdown_pre @ polling 10) @ forcing)
           = (Inr (Some True), (w3, ((shutdown_pre @ polling 10) @ forcing) @ polling k
                 @ [Sleep 1, IsRunning False]))"
        with True Inr g
        have "k < 5 \<and> force_shutdown X (w, [])
         = (Inr (), (w3, shutdown_pre @ polling 10 @ forcing @ polling k
                          @ [Sleep 1, IsRunning False]))"
          by (simp add: force_shutdown_unfold)
        then show ?thesis by blast
      qed
    qed
  qed
qed

lemma set_polling: "set (polling k) \<subseteq> {Sleep 1, IsRunning True}"
  by (induction k) (auto simp: polling_Suc polling_def)

lemma polling_no_Kill: "Kill \<notin> set (polling k)"
  using set_polling [of k] by auto

lemma polling_no_gone: "IsRunning False \<notin> set (polling k)"
  using set_polling [of k] by auto

lemma polls_polling: "polls (polling k) = k"
  by (induction k) (simp_all add: polling_Suc polls_def, simp add: polling_def)

lemma sleeps_polling: "sleeps (polling k) = k"
  by (induction k) (simp_all add: polling_Suc sleeps_def, simp add: polling_def)

lemma polls_append: "polls (xs @ ys) = polls xs + polls ys"
  by (simp add: polls_def)

lemma sleeps_append: "sleeps (xs @ ys) = sleeps xs + sleeps ys"
  by (simp add: sleeps_def)

lemma takeWhile_no_Kill: "Kill \<notin> set g \<Longrightarrow> takeWhile (\<lambda>e. e \<noteq> Kill) (g @ ys) = g @ takeWhile (\<lambda>e. e \<noteq> Kill) ys"
  by (induction g) auto

lemma dropWhile_no_Kill: "Kill \<notin> set g \<Longrightarrow> dropWhile (\<lambda>e. e \<noteq> Kill) (g @ ys) = dropWhile (\<lambda>e. e \<noteq> Kill) ys"
  by (induction g) auto

lemma graceful_phase_only:
  "Kill \<notin> set g \<Longrightarrow> graceful_phase (shutdown_pre @ g) = g"
  using takeWhile_no_Kill [of g "[]"]
  by (simp add: graceful_phase_def shutdown_pre_def)

lemma graceful_phase_forced:
  "Kill \<notin> set g \<Longrightarrow>
     graceful_phase (shutdown_pre @ g @ forcing @ f) = g @ [LogInfo ''Forcing Uplay shutdown'']"
  using takeWhile_no_Kill [of g "forcing @ f"]
  by (simp add: graceful_phase_def shutdown_pre_def forcing_def)

lemma forced_phase_none:
  "Kill \<notin> set g \<Longrightarrow> forced_phase (shutdown_pre @ g) = []"
proof -
  assume "Kill \<notin> set g"
  then have "dropWhile (\<lambda>e. e \<noteq> Kill) g = []"
    by (induction g) auto
  then show ?thesis
    by (simp add: forced_phase_def shutdown_pre_def del: dropWhile_eq_Nil_conv)
qed

lemma forced_phase_forced:
  "Kill \<notin> set g \<Longrightarrow> forced_phase (shutdown_pre @ g @ forcing @ f) = f"
  using dropWhile_no_Kill [of g "forcing @ f"]
  by (simp add: forced_phase_def shutdown_pre_def forcing_def)

lemma last_only_snoc:
  "x \<notin> set xs \<Longrightarrow> i < length (xs @ [y]) \<Longrightarrow> (xs @ [y]) ! i = x \<Longrightarrow> Suc i = length (xs @ [y])"
  by (cases "i < length xs") (auto simp: nth_append)

lemma last_only_absent:
  "x \<notin> set xs \<Longrightarrow> i < length xs \<Longrightarrow> xs ! i \<noteq> x"
  by (metis nth_mem)

lemma polls_simps:
  "polls [] = 0" "polls (IsRunning b # xs) = Suc (polls xs)" "polls (Sleep n # xs) = polls xs"
  "polls (LogInfo m # xs) = polls xs" "polls (LogError m # xs) = polls xs"
  by (simp_all add: polls_def)

lemma sleeps_simps:
  "sleeps [] = 0" "sleeps (IsRunning b # xs) = sleeps xs" "sleeps (Sleep 1 # xs) = Suc (sleeps xs)"
  "sleeps (Sleep (Suc 0) # xs) = Suc (sleeps xs)"
  "sleeps (LogInfo m # xs) = sleeps xs" "sleeps (LogError m # xs) = sleeps xs"
  by (simp_all add: sleeps_def)

lemma poll_protocol_idle: "poll_protocol [IsRunning False]"
  by (simp add: poll_protocol_def graceful_phase_def forced_phase_def polls_def sleeps_def)

lemma poll_protocol_pre: "poll_protocol shutdown_pre"
  by (simp add: poll_protocol_def graceful_phase_def forced_phase_def polls_def sleeps_def
      shutdown_pre_def nth_Cons split: nat.splits)

lemma poll_protocol_graceful:
  assumes "k < 10"
  shows "poll_protocol (shutdown_pre @ polling k @ [Sleep 1, IsRunning False])"
proof -
  let ?G = "polling k @ [Sleep 1, IsRunning False]"
  let ?tr = "shutdown_pre @ ?G"
  have nk: "Kill \<notin> set ?G"
    by (simp add: polling_no_Kill)
  have g: "graceful_phase ?tr = ?G"
    using nk by (rule graceful_phase_only)
  have f: "forced_phase ?tr = []"
    using nk by (rule forced_phase_none)
  have nokill: "Kill \<notin> set ?tr"
    using nk by (simp add: shutdown_pre_def)
  have "?tr = (shutdown_pre @ polling k @ [Sleep 1]) @ [IsRunning False]"
    by simp
  moreover have "IsRunning False \<notin> set (shutdown_pre @ polling k @ [Sleep 1])"
    by (simp add: polling_no_gone shutdown_pre_def)
  ultimately have lastonly:
    "\<forall>i. i < length ?tr \<longrightarrow> ?tr ! i = IsRunning False \<longrightarrow> Suc i = length ?tr"
    by (metis last_only_snoc)
  have p1: "polls ?G = Suc k"
    by (simp add: polls_append polls_polling polls_simps)
  have s1: "sleeps ?G = Suc k"
    by (simp add: sleeps_append sleeps_polling sleeps_simps)
  have p2: "polls [] = 0" and s2: "sleeps [] = 0"
    by (simp_all add: polls_def sleeps_def)
  have le: "Suc k \<le> 10" "(0::nat) \<le> 5"
    using assms by simp_all
  show ?thesis
    unfolding poll_protocol_def g f p1 p2 s1 s2
    using lastonly nokill le by blast
qed

lemma poll_protocol_forced:
  assumes "k < 5"
  shows "poll_protocol (shutdown_pre @ polling 10 @ forcing @ polling k @ [Sleep 1, IsRunning False])"
proof -
  let ?G = "polling 10 @ [LogInfo ''Forcing Uplay shutdown'']"
  let ?F = "polling k @ [Sleep 1, IsRunning False]"
  let ?tr = "shutdown_pre @ polling 10 @ forcing @ ?F"
  have g: "graceful_phase ?tr = ?G"
    by (rule graceful_phase_forced, rule polling_no_Kill)
  have f: "forced_phase ?tr = ?F"
    by (rule forced_phase_forced, rule polling_no_Kill)
  have "?tr = (shutdown_pre @ polling 10 @ forcing @ polling k @ [Sleep 1]) @ [IsRunning False]"
    by simp
  moreover have "IsRunning False \<notin> set (shutdown_pre @ polling 10 @ forcing @ polling k @ [Sleep 1])"
    by (simp add: polling_no_gone shutdown_pre_def forcing_def)
  ultimately have lastonly:
    "\<forall>i. i < length ?tr \<longrightarrow> ?tr ! i = IsRunning False \<longrightarrow> Suc i = length ?tr"
    by (metis last_only_snoc)
  have gone: "IsRunning False \<notin> set ?G"
    by (simp add: polling_no_gone)
  have p1: "polls ?G = 10"
    by (simp add: polls_append polls_polling polls_simps)
  have s1: "sleeps ?G = 10"
    by (simp add: sleeps_append sleeps_polling sleeps_simps)
  have p2: "polls ?F = Suc k"
    by (simp add: polls_append polls_polling polls_simps)
  have s2: "sleeps ?F = Suc k"
    by (simp add: sleeps_append sleeps_polling sleeps_simps)
  have le: "(10::nat) \<le> 10" "Suc k \<le> 5"
    using assms by simp_all
  show ?thesis
    unfolding poll_protocol_def g f p1 p2 s1 s2
    using lastonly gone le by blast
qed

lemma poll_protocol_failed:
  "poll_protocol (shutdown_pre @ polling 10 @ forcing @ polling 5
                  @ [LogError ''Failed to shut down wineuplay :(''])"
proof -
  let ?G = "polling 10 @ [LogInfo ''Forcing Uplay shutdown'']"
  let ?F = "polling 5 @ [LogError ''Failed to shut down wineuplay :('']"
  let ?tr = "shutdown_pre @ polling 10 @ forcing @ ?F"
  have g: "graceful_phase ?tr = ?G"
    by (rule graceful_phase_forced, rule polling_no_Kill)
  have f: "forced_phase ?tr = ?F"
    by (rule forced_phase_forced, rule polling_no_Kill)
  have "IsRunning False \<notin> set ?tr"
    by (simp add: polling_no_gone shutdown_pre_def forcing_def)
  then have lastonly: "\<forall>i. i < length ?tr \<longrightarrow> ?tr ! i = IsRunning False \<longrightarrow> Suc i = length ?tr"
    by (metis nth_mem)
  have gone: "IsRunning False \<notin> set ?G"
    by (simp add: polling_no_gone)
  have p1: "polls ?G = 10"
    by (simp add: polls_append polls_polling polls_simps)
  have p2: "polls ?F = 5"
    by (simp add: polls_append polls_polling polls_simps)
  have s1: "sleeps ?G = 10"
    by (simp add: sleeps_append sleeps_polling sleeps_simps)
  have s2: "sleeps ?F = 5"
    by (simp add: sleeps_append sleeps_polling sleeps_simps)
  have le: "(10::nat) \<le> 10" "(5::nat) \<le> 5"
    by simp_all
  show ?thesis
    unfolding poll_protocol_def g f p1 p2 s1 s2
    using lastonly gone le by blast
qed

lemma poll_protocol_force_shutdown: "poll_protocol (shutdown_trace X w)"
proof -
  have tr: "\<And>r w' t. force_shutdown X (w, []) = (r, (w', t)) \<Longrightarrow> shutdown_trace X w = t"
    by (simp only: shutdown_trace_def trace_of_def snd_conv)
  from force_shutdown_cases [of X w] show ?thesis
  proof (elim disjE exE conjE)
    assume "force_shutdown X (w, []) = (Inr (), (w, [IsRunning False]))"
    from tr [OF this] show ?thesis
      by (simp only: poll_protocol_idle)
  next
    fix e
    assume "force_shutdown X (w, []) = (Inl e, (w, shutdown_pre))"
    from tr [OF this] show ?thesis
      by (simp only: poll_protocol_pre)
  next
    fix w' k
    assume "k < 10" and "force_shutdown X (w, [])
         = (Inr (), (w', shutdown_pre @ polling k @ [Sleep 1, IsRunning False]))"
    from tr [OF this(2)] poll_protocol_graceful [OF this(1)] show ?thesis
      by (simp only:)
  next
    fix w' k
    assume "k < 5" and "force_shutdown X (w, [])
         = (Inr (), (w', shutdown_pre @ polling 10 @ forcing @ polling k
                          @ [Sleep 1, IsRunning False]))"
    from tr [OF this(2)] poll_protocol_forced [OF this(1)] show ?thesis
      by (simp only:)
  next
    fix w'
    assume "force_shutdown X (w, [])
         = (Inr (), (w', shutdown_pre @ polling 10 @ forcing @ polling 5
                          @ [LogError ''Failed to shut down wineuplay :('']))"
    from tr [OF this] poll_protocol_failed show ?thesis
      by (simp only:)
  qed
qed


text \<open>
  C3. \<^verbatim>\<open>force_shutdown\<close> polls liveness at most 10 times between the stop request and the
  forced kill and at most 5 times after the forced kill, each poll after one sleep of a
  second; a poll that finds the process gone is the last event of the run; when a poll of
  the graceful phase finds the process gone there is no forced kill, and a forced kill
  comes only after 10 polls of the graceful phase.
\<close>

theorem force_shutdown_polls:
  "polls (graceful_phase (shutdown_trace X w)) \<le> 10
   \<and> polls (forced_phase (shutdown_trace X w)) \<le> 5
   \<and> sleeps (graceful_phase (shutdown_trace X w)) = polls (graceful_phase (shutdown_trace X w))
   \<and> sleeps (forced_phase (shutdown_trace X w)) = polls (forced_phase (shutdown_trace X w))
   \<and> (\<forall>i. i < length (shutdown_trace X w) \<longrightarrow> shutdown_trace X w ! i = IsRunning False
          \<longrightarrow> Suc i = length (shutdown_trace X w))
   \<and> (IsRunning False \<in> set (graceful_phase (shutdown_trace X w))
          \<longrightarrow> Kill \<notin> set (shutdown_trace X w))
   \<and> (Kill \<in> set (shutdown_trace X w) \<longrightarrow> polls (graceful_phase (shutdown_trace X w)) = 10)"
  using poll_protocol_force_shutdown [of X w] unfolding poll_protocol_def .

theorem force_shutdown_polls_witness:
  "IsRunning False \<in> set (graceful_phase
       (shutdown_trace (sim_ext no_registry) \<lparr>sim_files = [], sim_alive = 3\<rparr>))
   \<and> polls (graceful_phase
       (shutdown_trace (sim_ext no_registry) \<lparr>sim_files = [], sim_alive = 3\<rparr>)) = 3
   \<and> Kill \<notin> set (shutdown_trace (sim_ext no_registry) \<lparr>sim_files = [], sim_alive = 3\<rparr>)"
proof -
  let ?tr = "shutdown_trace (sim_ext no_registry) \<lparr>sim_files = [], sim_alive = 3\<rparr>"
  have tr: "?tr = [IsRunning True, LogInfo ''Waiting for Uplay to shutdown...'', Shutdown,
      Sleep 1, IsRunning True, Sleep 1, IsRunning True, Sleep 1, IsRunning False]"
    by (simp add: shutdown_trace_def trace_of_def force_shutdown_unfold running_in_def sim_ext_def
        eval_nat_numeral has_uplay_shutdown_Suc shutdown_pre_def del: has_uplay_shutdown.simps)
  have gone: "IsRunning False \<in> set (graceful_phase ?tr)"
    by (simp add: tr graceful_phase_def)
  have three: "polls (graceful_phase ?tr) = 3"
    by (simp add: tr graceful_phase_def polls_def)
  from force_shutdown_polls [of "sim_ext no_registry" "\<lparr>sim_files = [], sim_alive = 3\<rparr>"] gone
  have "Kill \<notin> set ?tr"
    by blast
  with gone three show ?thesis
    by blast
qed

subsection \<open>What force\_shutdown raises\<close>

text \<open>
  C7. \<^verbatim>\<open>force_shutdown\<close> raises exactly when Uplay is running and the graceful stop request
  raises, and then it raises that exception; a run that escalated to the forced kill and
  never saw the process gone returns normally, its last act the error log; when Uplay is
  not running at entry the world is left as it was and the call succeeds. The liveness
  polls, the sleeps and the forced kill are collaborators that do not raise.
\<close>

theorem force_shutdown_raises_only_from_shutdown:
  "(\<forall>e. result (force_shutdown X (w, [])) = Inl e \<longleftrightarrow> running_in X w \<and> wine_shutdown X w = Inl e)
   \<and> (IsRunning False \<notin> set (shutdown_trace X w) \<and> Kill \<in> set (shutdown_trace X w)
        \<longrightarrow> result (force_shutdown X (w, [])) = Inr ()
            \<and> last (shutdown_trace X w) = LogError ''Failed to shut down wineuplay :('')
   \<and> (\<not> running_in X w \<longrightarrow> force_shutdown X (w, []) = (Inr (), (w, [IsRunning False])))"
proof (intro conjI allI impI)
  assume "\<not> running_in X w"
  then show "force_shutdown X (w, []) = (Inr (), (w, [IsRunning False]))"
    by (simp add: force_shutdown_unfold)
next
  fix e
  show "result (force_shutdown X (w, [])) = Inl e \<longleftrightarrow> running_in X w \<and> wine_shutdown X w = Inl e"
  proof
    assume r: "result (force_shutdown X (w, [])) = Inl e"
    from force_shutdown_cases [of X w] r have "wine_shutdown X w = Inl e"
      by (auto simp: result_def)
    moreover from r have "running_in X w"
      by (auto simp: result_def force_shutdown_unfold split: if_splits)
    ultimately show "running_in X w \<and> wine_shutdown X w = Inl e" by simp
  next
    assume "running_in X w \<and> wine_shutdown X w = Inl e"
    then show "result (force_shutdown X (w, [])) = Inl e"
      by (simp add: force_shutdown_unfold result_def)
  qed
next
  assume h: "IsRunning False \<notin> set (shutdown_trace X w) \<and> Kill \<in> set (shutdown_trace X w)"
  from force_shutdown_cases [of X w] h
  show "result (force_shutdown X (w, [])) = Inr ()"
    by (auto simp: result_def shutdown_trace_def trace_of_def shutdown_pre_def)
  from force_shutdown_cases [of X w] h
  show "last (shutdown_trace X w) = LogError ''Failed to shut down wineuplay :(''"
    by (auto simp: result_def shutdown_trace_def trace_of_def shutdown_pre_def polling_no_Kill)
qed

theorem force_shutdown_raises_only_from_shutdown_witness:
  "result (force_shutdown unkillable_ext (\<lparr>sim_files = [], sim_alive = 20\<rparr>, [])) = Inr ()
   \<and> last (shutdown_trace unkillable_ext \<lparr>sim_files = [], sim_alive = 20\<rparr>)
       = LogError ''Failed to shut down wineuplay :(''
   \<and> result (force_shutdown failing_shutdown_ext (\<lparr>sim_files = [], sim_alive = 20\<rparr>, []))
       = Inl (External ''shutdown failed'')"
proof -
  let ?w = "\<lparr>sim_files = [], sim_alive = 20\<rparr>"
  have tr: "shutdown_trace unkillable_ext ?w
      = shutdown_pre @ polling 10 @ forcing @ polling 5
        @ [LogError ''Failed to shut down wineuplay :('']"
    by (simp add: shutdown_trace_def trace_of_def force_shutdown_unfold running_in_def
        unkillable_ext_def sim_ext_def eval_nat_numeral has_uplay_shutdown_Suc shutdown_pre_def
        forcing_def polling_def has_uplay_shutdown_Zero
        del: has_uplay_shutdown.simps)
  have h: "IsRunning False \<notin> set (shutdown_trace unkillable_ext ?w)
           \<and> Kill \<in> set (shutdown_trace unkillable_ext ?w)"
    by (simp add: tr shutdown_pre_def forcing_def polling_no_gone)
  have r: "running_in failing_shutdown_ext ?w
           \<and> wine_shutdown failing_shutdown_ext ?w = Inl (External ''shutdown failed'')"
    by (simp add: running_in_def failing_shutdown_ext_def sim_ext_def)
  from force_shutdown_raises_only_from_shutdown [of unkillable_ext ?w] h
  have "result (force_shutdown unkillable_ext (?w, [])) = Inr ()
        \<and> last (shutdown_trace unkillable_ext ?w) = LogError ''Failed to shut down wineuplay :(''"
    by blast
  moreover from force_shutdown_raises_only_from_shutdown [of failing_shutdown_ext ?w] r
  have "result (force_shutdown failing_shutdown_ext (?w, [])) = Inl (External ''shutdown failed'')"
    by blast
  ultimately show ?thesis
    by blast
qed

subsection \<open>The command builders\<close>

text \<open>
  C8. \<^verbatim>\<open>install_game\<close> with an empty game id raises the ValueError for the missing id and
  leaves world and trace as they were: nothing was built or executed. With a non-empty
  id, once \<^verbatim>\<open>launch_args\<close> has produced its list, the one command executed is that list
  followed by the single argument \<^verbatim>\<open>uplay://install/<id>\<close>, and the call raises what the
  execution raises; an exception of \<^verbatim>\<open>launch_args\<close> itself is passed on.
\<close>

theorem install_game_requires_id:
  "install_game X self [] s = (Inl (ValueError ''Missing game ID in wineuplay.install_game''), s)
   \<and> (gid \<noteq> [] \<longrightarrow> launch_args X self s = (Inr args, s') \<longrightarrow>
         result (install_game X self gid s)
           = (case system_execute X (args @ [''uplay://install/'' @ gid]) (fst s') of
                Inl e \<Rightarrow> Inl e | Inr w' \<Rightarrow> Inr ())
         \<and> trace_of (install_game X self gid s)
           = snd s' @ [Execute (args @ [''uplay://install/'' @ gid])])
   \<and> (gid \<noteq> [] \<longrightarrow> launch_args X self s = (Inl e, s') \<longrightarrow>
         install_game X self gid s = (Inl e, s'))"
  by (simp add: install_game_def raise_def bnd_def run_system_execute_def emit_def effect_def
      result_def trace_of_def split: sum.splits)

lemma launch_args_custom:
  "launch_args (sim_ext no_registry) custom_runner (custom_world, [])
     = (Inr [''/usr/bin/wine'', ''/opt/uplay/Uplay.exe''],
        (custom_world, [PathExists ''/opt/uplay/Uplay.exe'']))"
  by (simp add: launch_args_def get_uplay_path_def custom_runner_def custom_world_def sim_ext_def
      or_empty_def os_path_join_def system_path_exists_def prog_defs Let_def)

theorem install_game_requires_id_witness:
  "result (install_game (sim_ext no_registry) custom_runner ''46'' (custom_world, [])) = Inr ()
   \<and> trace_of (install_game (sim_ext no_registry) custom_runner ''46'' (custom_world, []))
       = [PathExists ''/opt/uplay/Uplay.exe'',
          Execute [''/usr/bin/wine'', ''/opt/uplay/Uplay.exe'', ''uplay://install/46'']]"
  using install_game_requires_id [of "sim_ext no_registry" custom_runner "(custom_world, [])" "''46''"
      "[''/usr/bin/wine'', ''/opt/uplay/Uplay.exe'']"
      "(custom_world, [PathExists ''/opt/uplay/Uplay.exe''])"]
    launch_args_custom
  by (simp add: sim_ext_def)

text \<open>
  C10. Only \<^verbatim>\<open>install_game\<close> checks the game id. \<^verbatim>\<open>get_command\<close> with \<^verbatim>\<open>nolaunch\<close> unset
  and an empty game id returns the launch arguments followed by \<^verbatim>\<open>uplay://launch/\<close>, and it
  raises only what \<^verbatim>\<open>launch_args\<close> raises. \<^verbatim>\<open>remove_game_data\<close> without a game id, once
  Uplay is found installed, shut down and located, starts the launch arguments followed
  by \<^verbatim>\<open>uplay://uninstall/\<close> and raises only what starting the command raises. With the
  same empty id \<^verbatim>\<open>install_game\<close> raises the ValueError.
\<close>

theorem launch_and_uninstall_accept_empty_id:
  "(gc_nolaunch (game_config self) \<noteq> Some True \<longrightarrow> game_id self = [] \<longrightarrow>
      launch_args X self s = (Inr args, s') \<longrightarrow>
      get_command X self s = (Inr (args @ [''uplay://launch/'']), s'))
   \<and> (result (get_command X self s) = Inl e \<longleftrightarrow> result (launch_args X self s) = Inl e)
   \<and> (or_empty gid = [] \<longrightarrow> game_id self = [] \<longrightarrow>
      is_installed X self s = (Inr True, s1) \<longrightarrow> force_shutdown X s1 = (Inr (), s2) \<longrightarrow>
      launch_args X self s2 = (Inr args', s3) \<longrightarrow>
      trace_of (remove_game_data X self gid s)
        = snd s3 @ [StartCommand (args' @ [''uplay://uninstall/''])]
      \<and> result (remove_game_data X self gid s)
        = (case start_command X (args' @ [''uplay://uninstall/'']) (fst s3) of
             Inl e \<Rightarrow> Inl e | Inr w' \<Rightarrow> Inr None))
   \<and> install_game X self [] s
        = (Inl (ValueError ''Missing game ID in wineuplay.install_game''), s)"
proof (intro conjI impI)
  assume "gc_nolaunch (game_config self) \<noteq> Some True" "game_id self = []"
    "launch_args X self s = (Inr args, s')"
  then show "get_command X self s = (Inr (args @ [''uplay://launch/'']), s')"
    by (simp add: get_command_def bnd_def ret_def)
next
  show "result (get_command X self s) = Inl e \<longleftrightarrow> result (launch_args X self s) = Inl e"
    by (cases "launch_args X self s")
      (auto simp: get_command_def bnd_def ret_def result_def split: sum.splits)
next
  assume h: "or_empty gid = []" "game_id self = []" "is_installed X self s = (Inr True, s1)"
    "force_shutdown X s1 = (Inr (), s2)" "launch_args X self s2 = (Inr args', s3)"
  then show "trace_of (remove_game_data X self gid s)
        = snd s3 @ [StartCommand (args' @ [''uplay://uninstall/''])]"
    by (simp add: remove_game_data_def bnd_def ret_def run_start_command_def emit_def effect_def
        trace_of_def split: sum.splits)
  from h show "result (remove_game_data X self gid s)
        = (case start_command X (args' @ [''uplay://uninstall/'']) (fst s3) of
             Inl e \<Rightarrow> Inl e | Inr w' \<Rightarrow> Inr None)"
    by (simp add: remove_game_data_def bnd_def ret_def run_start_command_def emit_def effect_def
        result_def split: sum.splits)
next
  show "install_game X self [] s
        = (Inl (ValueError ''Missing game ID in wineuplay.install_game''), s)"
    by (simp add: install_game_def raise_def)
qed

lemma is_installed_custom:
  "is_installed (sim_ext no_registry) custom_runner (custom_world, [])
     = (Inr True, (custom_world,
          [PathExists ''/p64'', PathExists ''/opt/uplay/Uplay.exe'',
           PathExists ''/opt/uplay/Uplay.exe'']))"
  by (simp add: is_installed_def get_default_prefix_def get_uplay_path_def custom_runner_def
      custom_world_def sim_ext_def or_empty_def os_path_join_def system_path_exists_def
      prog_defs Let_def)

lemma launch_args_custom_from:
  "launch_args (sim_ext no_registry) custom_runner (custom_world, tr)
     = (Inr [''/usr/bin/wine'', ''/opt/uplay/Uplay.exe''],
        (custom_world, tr @ [PathExists ''/opt/uplay/Uplay.exe'']))"
  by (simp add: launch_args_def get_uplay_path_def custom_runner_def custom_world_def sim_ext_def
      or_empty_def os_path_join_def system_path_exists_def prog_defs Let_def)

lemma force_shutdown_custom:
  "force_shutdown (sim_ext no_registry) (custom_world, tr)
     = (Inr (), (custom_world, tr @ [IsRunning False]))"
  by (simp add: force_shutdown_def bnd_def ret_def is_running_run running_in_def sim_ext_def
      custom_world_def)

theorem launch_and_uninstall_accept_empty_id_witness:
  "get_command (sim_ext no_registry) custom_runner (custom_world, [])
     = (Inr [''/usr/bin/wine'', ''/opt/uplay/Uplay.exe'', ''uplay://launch/''],
        (custom_world, [PathExists ''/opt/uplay/Uplay.exe'']))
   \<and> trace_of (remove_game_data (sim_ext no_registry) custom_runner None (custom_world, []))
     = [PathExists ''/p64'', PathExists ''/opt/uplay/Uplay.exe'',
        PathExists ''/opt/uplay/Uplay.exe'', IsRunning False,
        PathExists ''/opt/uplay/Uplay.exe'',
        StartCommand [''/usr/bin/wine'', ''/opt/uplay/Uplay.exe'', ''uplay://uninstall/'']]
   \<and> result (remove_game_data (sim_ext no_registry) custom_runner None (custom_world, []))
     = Inr None"
proof -
  let ?X = "sim_ext no_registry"
  let ?t1 = "[PathExists ''/p64'', PathExists ''/opt/uplay/Uplay.exe'',
              PathExists ''/opt/uplay/Uplay.exe'']"
  have c: "gc_nolaunch (game_config custom_runner) \<noteq> Some True" "game_id custom_runner = []"
    "or_empty None = []"
    by (simp_all add: custom_runner_def game_id_def or_empty_def)
  from launch_and_uninstall_accept_empty_id [of custom_runner ?X "(custom_world, [])"
      "[''/usr/bin/wine'', ''/opt/uplay/Uplay.exe'']"
      "(custom_world, [PathExists ''/opt/uplay/Uplay.exe''])" _ None
      "(custom_world, ?t1)" "(custom_world, ?t1 @ [IsRunning False])"
      "[''/usr/bin/wine'', ''/opt/uplay/Uplay.exe'']"
      "(custom_world, (?t1 @ [IsRunning False]) @ [PathExists ''/opt/uplay/Uplay.exe''])"]
    c launch_args_custom is_installed_custom
    force_shutdown_custom [of ?t1] launch_args_custom_from [of "?t1 @ [IsRunning False]"]
  show ?thesis
    by (simp add: sim_ext_def)
qed

subsection \<open>Locating the executable\<close>

lemma system_path_exists_run:
  "system_path_exists X p (w, tr) = (Inr (path_exists X p w), (w, tr @ [PathExists p]))"
  by (simp add: system_path_exists_def prog_defs)

lemma probed_paths_append: "probed_paths (xs @ ys) = probed_paths xs @ probed_paths ys"
  by (induction xs rule: probed_paths.induct) simp_all

lemma probed_paths_map: "probed_paths (map PathExists ps) = ps"
  by (induction ps) simp_all

lemma try_default_paths_run:
  "try_default_paths X pfx dps (w, tr) =
     (case find (\<lambda>p. path_exists X p w) (map (os_path_join pfx) dps) of
        None \<Rightarrow> (Inr None, (w, tr @ map PathExists (map (os_path_join pfx) dps)))
      | Some h \<Rightarrow>
          (Inr (Some h),
           (w, tr @ map PathExists
                 (takeWhile (\<lambda>p. \<not> path_exists X p w) (map (os_path_join pfx) dps))
               @ [PathExists h])))"
proof (induction dps arbitrary: tr)
  case Nil
  show ?case by (simp add: ret_def)
next
  case (Cons dp dps)
  show ?case
  proof (cases "path_exists X (os_path_join pfx dp) w")
    case True
    then show ?thesis
      by (simp add: bnd_def system_path_exists_run ret_def)
  next
    case False
    then have "try_default_paths X pfx (dp # dps) (w, tr)
        = try_default_paths X pfx dps (w, tr @ [PathExists (os_path_join pfx dp)])"
      by (simp add: bnd_def system_path_exists_run)
    with False Cons.IH [of "tr @ [PathExists (os_path_join pfx dp)]"] show ?thesis
      by (simp split: option.splits)
  qed
qed

text \<open>
  C5. When a custom Uplay location is configured and the joined, expanded and normalised
  path of \<^verbatim>\<open>Uplay.exe\<close> under it exists, \<^verbatim>\<open>get_uplay_path\<close> returns that path, and the
  existence check of that path is all it did: no registry was opened or queried and no
  default or fallback prefix was looked up or probed.
\<close>

theorem custom_path_wins:
  "or_empty (runner_config self ''uplay_path'') \<noteq> [] \<longrightarrow>
   path_exists X (custom_exe X self) w \<longrightarrow>
   get_uplay_path X self (w, tr)
     = (Inr (custom_exe X self), (w, tr @ [PathExists (custom_exe X self)]))"
  by (simp add: get_uplay_path_def custom_exe_def Let_def bnd_def system_path_exists_run ret_def)

theorem custom_path_wins_witness:
  "get_uplay_path (sim_ext no_registry) custom_runner (custom_world, [])
     = (Inr ''/opt/uplay/Uplay.exe'', (custom_world, [PathExists ''/opt/uplay/Uplay.exe'']))"
proof -
  have c: "custom_exe (sim_ext no_registry) custom_runner = ''/opt/uplay/Uplay.exe''"
    by (simp add: custom_exe_def sim_ext_def custom_runner_def or_empty_def os_path_join_def)
  have h: "or_empty (runner_config custom_runner ''uplay_path'') \<noteq> []"
    by (simp add: custom_runner_def or_empty_def)
  have e: "path_exists (sim_ext no_registry) (custom_exe (sim_ext no_registry) custom_runner)
       custom_world"
    by (simp add: c) (simp add: sim_ext_def custom_world_def)
  from custom_path_wins [of custom_runner "sim_ext no_registry" custom_world "[]"] h e c
  show ?thesis
    by simp
qed

end
